theory Spec2Isabelle
  imports Main "HOL-Library.Word" "HOL-Library.AList"
begin

section \<open>The OAuth2 authorization-code client of flytekit (clients/auth/auth_client.py)\<close>

text \<open>
  The theory embeds \<^verbatim>\<open>src/flytekit/clients/auth/auth_client.py\<close>. Python strings are
  \<open>string\<close> (byte strings; every string the module builds itself is ASCII), exceptions
  are values of \<open>error\<close> and a function that can raise returns \<open>error + 'a\<close>.
  Mutation of an object is explicit state passing, and the process-wide registry of the
  metaclass is a record holding the registry and the objects it refers to.
\<close>

subsection \<open>Exceptions and values\<close>

text \<open>
  The exceptions the module raises, by their Python class. A message built by an f-string
  from a status code or a response body is represented by the interpolated data.
\<close>

datatype error =
    ValueError string
  | KeyError string
  | TypeError string
  | AttributeError string
  | UnboundLocalError string
  | RaisedException nat string
      \<comment> \<open>\<^verbatim>\<open>Exception(f"Failed to request access token with response: [{status}] {content}")\<close>\<close>
  | AccessTokenNotFoundError nat
      \<comment> \<open>\<^verbatim>\<open>AccessTokenNotFoundError(f"Non-200 returned from refresh token endpoint {status}")\<close>\<close>
  | LibraryError string
      \<comment> \<open>an exception raised inside a library call (socket, requests, json)\<close>

type_synonym byte = "8 word"

subsection \<open>String helpers of the Python runtime\<close>

text \<open>\<^verbatim>\<open>s.strip(chars)\<close>: drops the leading and the trailing characters that are in \<open>chars\<close>.\<close>

definition strip :: "string \<Rightarrow> string \<Rightarrow> string" where
  "strip chars s =
     rev (dropWhile (\<lambda>c. c \<in> set chars) (rev (dropWhile (\<lambda>c. c \<in> set chars) s)))"

text \<open>\<^verbatim>\<open>sep.join(xs)\<close>\<close>

fun join :: "string \<Rightarrow> string list \<Rightarrow> string" where
  "join sep [] = []"
| "join sep [x] = x"
| "join sep (x # y # ys) = x @ sep @ join sep (y # ys)"

subsection \<open>Random bytes and url-safe base64\<close>

text \<open>
  \<^verbatim>\<open>os.urandom(n)\<close> returns \<open>n\<close> bytes of the operating system's entropy. The entropy
  still to be drawn is a stream of bytes; drawing \<open>n\<close> bytes returns the first \<open>n\<close> and
  leaves the rest.
\<close>

type_synonym entropy = "nat \<Rightarrow> byte"

definition urandom :: "nat \<Rightarrow> entropy \<Rightarrow> byte list \<times> entropy" where
  "urandom n ent = (map ent [0..<n], \<lambda>i. ent (n + i))"

text \<open>The alphabet of \<^verbatim>\<open>base64.urlsafe_b64encode\<close> (RFC 4648, section 5).\<close>

definition b64_alphabet :: string where
  "b64_alphabet = ''ABCDEFGHIJKLMNOPQRSTUVWXYZabcdefghijklmnopqrstuvwxyz0123456789-_''"

definition b64_char :: "nat \<Rightarrow> char" where
  "b64_char n = b64_alphabet ! (n mod 64)"

text \<open>
  Three bytes give four characters of six bits each; a last group of one or two bytes is
  padded with \<open>=\<close> to four characters.
\<close>

fun urlsafe_b64encode :: "byte list \<Rightarrow> string" where
  "urlsafe_b64encode [] = []"
| "urlsafe_b64encode [a] =
     [b64_char (unat a div 4), b64_char ((unat a mod 4) * 16), CHR ''='', CHR ''='']"
| "urlsafe_b64encode [a, b] =
     [b64_char (unat a div 4),
      b64_char ((unat a mod 4) * 16 + unat b div 16),
      b64_char ((unat b mod 16) * 4),
      CHR ''='']"
| "urlsafe_b64encode (a # b # c # rest) =
     [b64_char (unat a div 4),
      b64_char ((unat a mod 4) * 16 + unat b div 16),
      b64_char ((unat b mod 16) * 4 + unat c div 64),
      b64_char (unat c mod 64)] @ urlsafe_b64encode rest"

subsection \<open>PKCE generator\<close>

definition code_verifier_length :: nat where
  "code_verifier_length = 64"

definition random_seed_length :: nat where
  "random_seed_length = 40"

text \<open>The characters that \<^verbatim>\<open>[^a-zA-Z0-9_\-.~]+\<close> does not match.\<close>

definition verifier_char :: "char \<Rightarrow> bool" where
  "verifier_char c \<longleftrightarrow>
     c \<in> set (''abcdefghijklmnopqrstuvwxyz'' @ ''ABCDEFGHIJKLMNOPQRSTUVWXYZ'' @
              ''0123456789'' @ ''_-.~'')"

text \<open>The characters that \<^verbatim>\<open>[^a-zA-Z0-9-_.,]+\<close> does not match.\<close>

definition state_char :: "char \<Rightarrow> bool" where
  "state_char c \<longleftrightarrow>
     c \<in> set (''abcdefghijklmnopqrstuvwxyz'' @ ''ABCDEFGHIJKLMNOPQRSTUVWXYZ'' @
              ''0123456789'' @ ''-_.,'')"

text \<open>
  \<^verbatim>\<open>_generate_code_verifier\<close>. \<^verbatim>\<open>re.sub(r"[^...]+", "", s)\<close> deletes every run of
  characters outside the class, which is \<open>filter\<close> with the class.
\<close>

definition generate_code_verifier :: "entropy \<Rightarrow> (error + string) \<times> entropy" where
  "generate_code_verifier ent =
     (let (bytes, ent') = urandom code_verifier_length ent;
          code_verifier = urlsafe_b64encode bytes;
          code_verifier = filter verifier_char code_verifier
      in if length code_verifier < 43
           then (Inl (ValueError ''Verifier too short. number of bytes must be > 30.''), ent')
         else if length code_verifier > 128
           then (Inl (ValueError ''Verifier too long. number of bytes must be < 97.''), ent')
         else (Inr code_verifier, ent'))"

text \<open>\<^verbatim>\<open>_generate_state_parameter\<close>\<close>

definition generate_state_parameter :: "entropy \<Rightarrow> string \<times> entropy" where
  "generate_state_parameter ent =
     (let (bytes, ent') = urandom random_seed_length ent;
          state = urlsafe_b64encode bytes
      in (filter state_char state, ent'))"

subsection \<open>Data model\<close>

text \<open>\<^verbatim>\<open>EndpointMetadata\<close>. The client builds one from \<^verbatim>\<open>urlparse(...).hostname\<close>, which is
  \<^verbatim>\<open>None\<close> when the URL has no host, so the label is optional here.\<close>

record EndpointMetadata =
  endpoint :: "string option"
  success_html :: "string option"
  failure_html :: "string option"

text \<open>
  The Python values that cross the module's untyped interfaces: the arguments of a
  constructor call, the values of a form, the values of a JSON object.
\<close>

datatype pyval =
    PyNone
  | PyBool bool
  | PyInt int
  | PyStr string
  | PyList "pyval list"
  | PyMeta EndpointMetadata

text \<open>\<^verbatim>\<open>AuthorizationCode\<close>: the two values of a callback.\<close>

record AuthorizationCode =
  code :: string
  state :: string

text \<open>
  Modelled from the spec: \<^verbatim>\<open>Credentials\<close> of \<^verbatim>\<open>flytekit/clients/auth/keyring.py\<close>, which is
  not among the sources. The spec gives the fields access token, optional refresh token,
  optional expiry and endpoint; the constructor call in \<^verbatim>\<open>_credentials_from_response\<close>
  gives their order and the keyword \<^verbatim>\<open>expires_in\<close>. The token fields hold whatever value
  the JSON body had (\<open>PyNone\<close> is Python's \<^verbatim>\<open>None\<close>).
\<close>

record Credentials =
  access_token :: pyval
  refresh_token :: pyval
  for_endpoint :: string
  expires_in :: pyval

text \<open>What \<^verbatim>\<open>urllib.parse.urlparse\<close> returns: the six components and the two derived
  attributes the module reads. Reading \<^verbatim>\<open>port\<close> raises for a port that is not a number
  in range.\<close>

record url =
  url_scheme :: string
  url_netloc :: string
  url_path :: string
  url_params :: string
  url_query :: string
  url_fragment :: string
  url_hostname :: "string option"
  url_port :: "error + nat option"

text \<open>
  The library functions the module calls and whose results it only passes on. Every
  definition below takes them as a parameter, so every theorem holds for whatever these
  functions compute. \<open>get_default_success_html\<close> is the module \<^verbatim>\<open>default_html\<close> of the
  repository, which is not among the sources.
\<close>

record stdlib =
  sha256 :: "string \<Rightarrow> byte list"
  urlparse :: "string option \<Rightarrow> url"
  urlunparse :: "string \<times> string \<times> string \<times> string option \<times> string \<times> string option \<Rightarrow> string"
  urlencode :: "(string \<times> pyval) list \<Rightarrow> string"
  parse_qsl :: "string \<Rightarrow> (string \<times> string) list"
  get_default_success_html :: "string option \<Rightarrow> string"

text \<open>\<^verbatim>\<open>_create_code_challenge\<close>: \<^verbatim>\<open>replace("=", "")\<close> deletes the padding.\<close>

definition create_code_challenge :: "stdlib \<Rightarrow> string \<Rightarrow> string" where
  "create_code_challenge lib code_verifier =
     (let code_challenge = sha256 lib code_verifier;
          code_challenge = urlsafe_b64encode code_challenge
      in filter (\<lambda>c. c \<noteq> CHR ''='') code_challenge)"

subsection \<open>The authorization client\<close>

text \<open>The attributes that \<^verbatim>\<open>AuthorizationClient.__init__\<close> sets on \<^verbatim>\<open>self\<close>. A Python dict
  keeps its keys in insertion order, so \<^verbatim>\<open>_params\<close> is an association list.\<close>

record AuthorizationClient =
  self_endpoint :: string
  self_auth_endpoint :: string
  self_remote :: EndpointMetadata
  self_token_endpoint :: string
  self_client_id :: "string option"
  self_scopes :: "string list"
  self_redirect_uri :: "string option"
  self_code_verifier :: string
  self_code_challenge :: string
  self_state :: string
  self_verify :: pyval
  self_headers :: "(string \<times> string) list"
  self_params :: "(string \<times> pyval) list"

text \<open>The arguments of \<^verbatim>\<open>__init__\<close> at the types of its annotations.\<close>

record init_args =
  arg_endpoint :: string
  arg_auth_endpoint :: string
  arg_token_endpoint :: string
  arg_scopes :: "string list option"
  arg_client_id :: "string option"
  arg_redirect_uri :: "string option"
  arg_endpoint_metadata :: "EndpointMetadata option"
  arg_verify :: pyval

definition of_optional :: "string option \<Rightarrow> pyval" where
  "of_optional x = (case x of None \<Rightarrow> PyNone | Some s \<Rightarrow> PyStr s)"

text \<open>
  \<^verbatim>\<open>AuthorizationClient.__init__\<close>. It draws the code verifier and then the state token
  from the entropy; \<^verbatim>\<open>scopes or []\<close> turns \<^verbatim>\<open>None\<close> into the empty list. \<open>CHR 0x27\<close> is
  the apostrophe of \<^verbatim>\<open>strip("' ")\<close> and \<^verbatim>\<open>strip("[]'")\<close>.
\<close>

definition init :: "stdlib \<Rightarrow> init_args \<Rightarrow> entropy \<Rightarrow> (error + AuthorizationClient) \<times> entropy" where
  "init lib a ent =
     (let remote =
            (case arg_endpoint_metadata a of
               None \<Rightarrow>
                 (let remote_url = urlparse lib (Some (arg_auth_endpoint a))
                  in \<lparr>endpoint = url_hostname remote_url, success_html = None, failure_html = None\<rparr>)
             | Some m \<Rightarrow> m);
          scopes = (case arg_scopes a of None \<Rightarrow> [] | Some ss \<Rightarrow> ss)
      in case generate_code_verifier ent of
           (Inl e, ent') \<Rightarrow> (Inl e, ent')
         | (Inr code_verifier, ent') \<Rightarrow>
             (let code_challenge = create_code_challenge lib code_verifier;
                  (state, ent'') = generate_state_parameter ent'
              in (Inr \<lparr>self_endpoint = arg_endpoint a,
                       self_auth_endpoint = arg_auth_endpoint a,
                       self_remote = remote,
                       self_token_endpoint = arg_token_endpoint a,
                       self_client_id = arg_client_id a,
                       self_scopes = scopes,
                       self_redirect_uri = arg_redirect_uri a,
                       self_code_verifier = code_verifier,
                       self_code_challenge = code_challenge,
                       self_state = state,
                       self_verify = arg_verify a,
                       self_headers = [(''content-type'', ''application/x-www-form-urlencoded'')],
                       self_params =
                         [(''client_id'', of_optional (arg_client_id a)),
                          (''response_type'', PyStr ''code''),
                          (''scope'',
                             PyStr (strip (''[]'' @ [CHR 0x27])
                                      (join '' '' (map (strip ([CHR 0x27] @ '' '')) scopes)))),
                          (''redirect_uri'', of_optional (arg_redirect_uri a)),
                          (''state'', PyStr state),
                          (''code_challenge'', PyStr code_challenge),
                          (''code_challenge_method'', PyStr ''S256'')]\<rparr>,
                  ent'')))"

subsection \<open>Constructor calls and the per-endpoint registry\<close>

text \<open>
  A call \<^verbatim>\<open>AuthorizationClient(*args, **kwargs)\<close> is a list of positional values and an
  association list of keyword values (Python rejects a repeated keyword before the call).
  The parameters of \<^verbatim>\<open>__init__\<close> after \<^verbatim>\<open>self\<close>, in order:
\<close>

definition init_parameters :: "string list" where
  "init_parameters =
     [''endpoint'', ''auth_endpoint'', ''token_endpoint'', ''scopes'', ''client_id'',
      ''redirect_uri'', ''endpoint_metadata'', ''verify'']"

text \<open>
  Python's binding of the arguments to the parameters. Every failure is a \<^verbatim>\<open>TypeError\<close>;
  its message is shortened to the kind of failure. A keyword is checked against the
  parameter names and against the parameters already filled by position, then the number
  of positional values is checked, then the three parameters without a default.
\<close>

fun check_keywords :: "nat \<Rightarrow> (string \<times> pyval) list \<Rightarrow> error option" where
  "check_keywords n [] = None"
| "check_keywords n ((k, v) # kws) =
     (if k \<notin> set init_parameters
        then Some (TypeError (''unexpected keyword argument '' @ k))
      else if k \<in> set (take n init_parameters)
        then Some (TypeError (''multiple values for argument '' @ k))
      else check_keywords n kws)"

definition bind_arguments :: "pyval list \<Rightarrow> (string \<times> pyval) list \<Rightarrow> error + (string \<rightharpoonup> pyval)" where
  "bind_arguments args kwargs =
     (case check_keywords (length args) kwargs of
        Some e \<Rightarrow> Inl e
      | None \<Rightarrow>
          if length args > length init_parameters
            then Inl (TypeError ''too many positional arguments'')
          else
            (let bound = map_of (zip init_parameters args @ kwargs)
             in if list_ex (\<lambda>k. bound k = None) (take 3 init_parameters)
                  then Inl (TypeError ''missing required positional arguments'')
                else Inr bound))"

text \<open>
  The annotations of \<^verbatim>\<open>__init__\<close> are the input type of the model. Python does not check
  them; a call with a value of another type is outside the model and is rejected here
  with a \<^verbatim>\<open>TypeError\<close>. An optional parameter that is not passed is \<^verbatim>\<open>None\<close>.
\<close>

fun optional_str :: "pyval option \<Rightarrow> string option option" where
  "optional_str None = Some None"
| "optional_str (Some PyNone) = Some None"
| "optional_str (Some (PyStr s)) = Some (Some s)"
| "optional_str (Some _) = None"

fun str_items :: "pyval list \<Rightarrow> string list option" where
  "str_items [] = Some []"
| "str_items (PyStr s # vs) = (case str_items vs of None \<Rightarrow> None | Some ss \<Rightarrow> Some (s # ss))"
| "str_items (_ # vs) = None"

fun optional_scopes :: "pyval option \<Rightarrow> string list option option" where
  "optional_scopes None = Some None"
| "optional_scopes (Some PyNone) = Some None"
| "optional_scopes (Some (PyList vs)) =
     (case str_items vs of None \<Rightarrow> None | Some ss \<Rightarrow> Some (Some ss))"
| "optional_scopes (Some _) = None"

fun optional_metadata :: "pyval option \<Rightarrow> EndpointMetadata option option" where
  "optional_metadata None = Some None"
| "optional_metadata (Some PyNone) = Some None"
| "optional_metadata (Some (PyMeta m)) = Some (Some m)"
| "optional_metadata (Some _) = None"

definition typed_arguments :: "(string \<rightharpoonup> pyval) \<Rightarrow> error + init_args" where
  "typed_arguments bound =
     (case (bound ''endpoint'', bound ''auth_endpoint'', bound ''token_endpoint'') of
        (Some (PyStr e), Some (PyStr a), Some (PyStr t)) \<Rightarrow>
          (case (optional_scopes (bound ''scopes''), optional_str (bound ''client_id''),
                 optional_str (bound ''redirect_uri''),
                 optional_metadata (bound ''endpoint_metadata'')) of
             (Some sc, Some ci, Some ru, Some em) \<Rightarrow>
               Inr \<lparr>arg_endpoint = e, arg_auth_endpoint = a, arg_token_endpoint = t,
                    arg_scopes = sc, arg_client_id = ci, arg_redirect_uri = ru,
                    arg_endpoint_metadata = em,
                    arg_verify = (case bound ''verify'' of None \<Rightarrow> PyNone | Some v \<Rightarrow> v)\<rparr>
           | _ \<Rightarrow> Inl (TypeError ''argument of another type than annotated''))
      | _ \<Rightarrow> Inl (TypeError ''argument of another type than annotated''))"

text \<open>\<^verbatim>\<open>type.__call__\<close>, reached through \<^verbatim>\<open>super().__call__(*args, **kwargs)\<close>: creates the
  object and runs \<^verbatim>\<open>__init__\<close> on the bound arguments.\<close>

definition construct ::
  "stdlib \<Rightarrow> pyval list \<Rightarrow> (string \<times> pyval) list \<Rightarrow> entropy \<Rightarrow> (error + AuthorizationClient) \<times> entropy" where
  "construct lib args kwargs ent =
     (case bind_arguments args kwargs of
        Inl e \<Rightarrow> (Inl e, ent)
      | Inr bound \<Rightarrow>
          (case typed_arguments bound of
             Inl e \<Rightarrow> (Inl e, ent)
           | Inr a \<Rightarrow> init lib a ent))"

text \<open>
  The state of the process: the class attribute \<^verbatim>\<open>_instances\<close> (a dict from key to
  object), the objects themselves, referred to by their index, and the entropy not yet
  drawn. Two references denote the identical instance exactly when they are equal.
\<close>

type_synonym ref = nat

record process =
  instances :: "pyval \<rightharpoonup> ref"
  objects :: "AuthorizationClient list"
  entropy :: entropy

text \<open>
  A dict key is looked up by hash and equality: a list and a dataclass instance with
  \<^verbatim>\<open>eq\<close> are unhashable, and \<^verbatim>\<open>True\<close> and \<^verbatim>\<open>False\<close> are the keys \<^verbatim>\<open>1\<close> and \<^verbatim>\<open>0\<close>.
\<close>

fun dict_key :: "pyval \<Rightarrow> pyval option" where
  "dict_key (PyList vs) = None"
| "dict_key (PyMeta m) = None"
| "dict_key (PyBool b) = Some (PyInt (if b then 1 else 0))"
| "dict_key v = Some v"

text \<open>\<^verbatim>\<open>_SingletonPerEndpoint.__call__\<close>\<close>

definition SingletonPerEndpoint_call ::
  "stdlib \<Rightarrow> pyval list \<Rightarrow> (string \<times> pyval) list \<Rightarrow> process \<Rightarrow> (error + ref) \<times> process" where
  "SingletonPerEndpoint_call lib args kwargs p =
     (case (case args of
              a # _ \<Rightarrow> Inr a
            | [] \<Rightarrow>
                (case map_of kwargs ''auth_endpoint'' of
                   Some v \<Rightarrow> Inr v
                 | None \<Rightarrow> Inl (ValueError ''parameter auth_endpoint is required''))) of
        Inl e \<Rightarrow> (Inl e, p)
      | Inr endpoint' \<Rightarrow>
          (case dict_key endpoint' of
             None \<Rightarrow> (Inl (TypeError ''unhashable type''), p)
           | Some k \<Rightarrow>
               (case instances p k of
                  Some obj \<Rightarrow> (Inr obj, p)
                | None \<Rightarrow>
                    (case construct lib args kwargs (entropy p) of
                       (Inl e, ent') \<Rightarrow> (Inl e, p\<lparr>entropy := ent'\<rparr>)
                     | (Inr obj, ent') \<Rightarrow>
                         (Inr (length (objects p)),
                          p\<lparr>instances := (instances p)(k \<mapsto> length (objects p)),
                            objects := objects p @ [obj],
                            entropy := ent'\<rparr>)))))"

text \<open>The process before any client has been constructed.\<close>

definition start :: "entropy \<Rightarrow> process" where
  "start ent = \<lparr>instances = Map.empty, objects = [], entropy = ent\<rparr>"

subsection \<open>The world outside the process\<close>

text \<open>
  An HTTP request that reaches the callback listener, as \<^verbatim>\<open>BaseHTTPRequestHandler\<close>
  presents it: the method and the request target.
\<close>

record http_request =
  command :: string
  path :: string

text \<open>The keyword arguments of \<^verbatim>\<open>requests.post\<close> as the module passes them, and the
  attributes of the response that it reads. \<^verbatim>\<open>json()\<close> raises when the body is not JSON;
  the model covers bodies that are JSON objects.\<close>

record post_request =
  url :: string
  data :: "(string \<times> pyval) list"
  headers :: "(string \<times> string) list"
  allow_redirects :: bool
  verify :: pyval

record response =
  status_code :: nat
  content :: string
  json :: "error + (string \<rightharpoonup> pyval)"

text \<open>
  What the environment decides: whether the listening socket can be bound, which requests
  reach the listener and in which order, and what the token endpoint answers to a POST
  (or the exception \<^verbatim>\<open>requests.post\<close> raises).
\<close>

record world =
  server_bind :: "string option \<times> nat option \<Rightarrow> error option"
  inbound :: "http_request list"
  requests_post :: "post_request \<Rightarrow> error + response"

text \<open>The effects of a call that are visible outside the process, in order.\<close>

datatype effect =
    ProcessStart
  | OpenBrowser string
  | HttpPost post_request
  | ProcessTerminate

fun is_post :: "effect \<Rightarrow> bool" where
  "is_post (HttpPost r) = True"
| "is_post _ = False"

text \<open>A method call on a client: what it returns or raises, the instance after the call,
  and its effects.\<close>

record 'r outcome =
  result :: 'r
  self :: AuthorizationClient
  effects :: "effect list"

subsection \<open>Token exchanger\<close>

text \<open>
  \<^verbatim>\<open>_credentials_from_response\<close>. \<^verbatim>\<open>refresh_token\<close> is initialised to \<^verbatim>\<open>None\<close> before the
  tests; \<^verbatim>\<open>expires_in\<close> is assigned only under its test, so reading it in the constructor
  call raises \<^verbatim>\<open>UnboundLocalError\<close> when the body has no \<^verbatim>\<open>expires_in\<close>.
\<close>

definition credentials_from_response :: "AuthorizationClient \<Rightarrow> response \<Rightarrow> error + Credentials" where
  \<open>credentials_from_response c auth_token_resp =
     (case json auth_token_resp of
        Inl e \<Rightarrow> Inl e
      | Inr response_body \<Rightarrow>
          (case response_body ''access_token'' of
             None \<Rightarrow> Inl (ValueError ''Expected "access_token" in response from oauth server'')
           | Some access_token' \<Rightarrow>
               (let refresh_token' =
                      (case response_body ''refresh_token'' of None \<Rightarrow> PyNone | Some v \<Rightarrow> v)
                in case response_body ''expires_in'' of
                     None \<Rightarrow> Inl (UnboundLocalError ''expires_in'')
                   | Some expires_in' \<Rightarrow>
                       Inr \<lparr>access_token = access_token', refresh_token = refresh_token',
                            for_endpoint = self_endpoint c, expires_in = expires_in'\<rparr>)))\<close>

text \<open>
  \<^verbatim>\<open>_request_access_token\<close>. \<^verbatim>\<open>self._params.update({...})\<close> writes the three entries into
  the dict of the instance (an existing key keeps its place, a new key is appended), and
  the same dict is the form of the POST.
\<close>

definition request_access_token ::
  "world \<Rightarrow> AuthorizationClient \<Rightarrow> AuthorizationCode \<Rightarrow> (error + Credentials) outcome" where
  "request_access_token w c auth_code =
     (if self_state c \<noteq> state auth_code
        then \<lparr>result = Inl (ValueError (''Unexpected state parameter ['' @ state auth_code @ ''] passed'')),
              self = c, effects = []\<rparr>
      else
        (let c' = c\<lparr>self_params :=
                      AList.update ''grant_type'' (PyStr ''authorization_code'')
                        (AList.update ''code_verifier'' (PyStr (self_code_verifier c))
                          (AList.update ''code'' (PyStr (code auth_code)) (self_params c)))\<rparr>;
             req = \<lparr>url = self_token_endpoint c', data = self_params c',
                    headers = self_headers c', allow_redirects = False,
                    verify = self_verify c'\<rparr>
         in case requests_post w req of
              Inl e \<Rightarrow> \<lparr>result = Inl e, self = c', effects = [HttpPost req]\<rparr>
            | Inr resp \<Rightarrow>
                if status_code resp \<noteq> 200
                  then \<lparr>result = Inl (RaisedException (status_code resp) (content resp)),
                        self = c', effects = [HttpPost req]\<rparr>
                else \<lparr>result = credentials_from_response c' resp,
                      self = c', effects = [HttpPost req]\<rparr>))"

text \<open>\<^verbatim>\<open>refresh_access_token\<close>\<close>

definition refresh_access_token ::
  "world \<Rightarrow> AuthorizationClient \<Rightarrow> Credentials \<Rightarrow> (error + Credentials) outcome" where
  "refresh_access_token w c credentials =
     (if refresh_token credentials = PyNone
        then \<lparr>result = Inl (ValueError
                 ''no refresh token available with which to refresh authorization credentials''),
              self = c, effects = []\<rparr>
      else
        (let req = \<lparr>url = self_token_endpoint c,
                    data = [(''grant_type'', PyStr ''refresh_token''),
                            (''client_id'', of_optional (self_client_id c)),
                            (''refresh_token'', refresh_token credentials)],
                    headers = self_headers c, allow_redirects = False,
                    verify = self_verify c\<rparr>
         in case requests_post w req of
              Inl e \<Rightarrow> \<lparr>result = Inl e, self = c, effects = [HttpPost req]\<rparr>
            | Inr resp \<Rightarrow>
                if status_code resp \<noteq> 200
                  then \<lparr>result = Inl (AccessTokenNotFoundError (status_code resp)),
                        self = c, effects = [HttpPost req]\<rparr>
                else \<lparr>result = credentials_from_response c resp,
                      self = c, effects = [HttpPost req]\<rparr>))"

text \<open>\<^verbatim>\<open>_request_authorization_code\<close>: the URL handed to \<^verbatim>\<open>webbrowser.open_new_tab\<close>.\<close>

definition request_authorization_code :: "stdlib \<Rightarrow> AuthorizationClient \<Rightarrow> string" where
  "request_authorization_code lib c =
     (let parsed = urlparse lib (Some (self_auth_endpoint c));
          query = urlencode lib (self_params c)
      in urlunparse lib (url_scheme parsed, url_netloc parsed, url_path parsed, None, query, None))"

subsection \<open>Callback listener\<close>

text \<open>
  \<^verbatim>\<open>OAuthHTTPServer\<close>: the attributes set by its \<^verbatim>\<open>__init__\<close> and the state of its
  listening socket. \<open>srv_queue\<close> is \<^verbatim>\<open>_queue\<close>: \<open>None\<close> until \<^verbatim>\<open>handle_request\<close> attaches
  a queue, then the items put on that queue so far. \<open>srv_closed\<close> holds once
  \<^verbatim>\<open>server_close()\<close> has closed the socket.
\<close>

record OAuthHTTPServer =
  srv_redirect_path :: string
  srv_remote_metadata :: EndpointMetadata
  srv_queue :: "AuthorizationCode list option"
  srv_closed :: bool

text \<open>
  The calls a request handler makes on its connection, in order: \<^verbatim>\<open>send_response(code)\<close>,
  \<^verbatim>\<open>send_header(k, v)\<close>, \<^verbatim>\<open>end_headers()\<close>, \<^verbatim>\<open>wfile.write(body)\<close> and \<^verbatim>\<open>wfile.flush()\<close>.
\<close>

datatype wire =
    SendResponse nat
  | SendHeader string string
  | EndHeaders
  | Write string
  | Flush

text \<open>
  What of these calls reaches the client. The library documents that \<^verbatim>\<open>send_response\<close>
  and \<^verbatim>\<open>send_header\<close> add to an internal buffer of headers, which \<^verbatim>\<open>end_headers\<close> writes
  to the output stream; a body is written to the stream directly. The first argument is
  the buffer.
\<close>

fun transmitted :: "wire list \<Rightarrow> wire list \<Rightarrow> wire list" where
  "transmitted buffer [] = []"
| "transmitted buffer (SendResponse n # calls) = transmitted (buffer @ [SendResponse n]) calls"
| "transmitted buffer (SendHeader k v # calls) = transmitted (buffer @ [SendHeader k v]) calls"
| "transmitted buffer (EndHeaders # calls) = buffer @ [EndHeaders] @ transmitted [] calls"
| "transmitted buffer (Write body # calls) = Write body # transmitted buffer calls"
| "transmitted buffer (Flush # calls) = transmitted buffer calls"

text \<open>\<^verbatim>\<open>OAuthHTTPServer.handle_authorization_code\<close>\<close>

definition handle_authorization_code ::
  "OAuthHTTPServer \<Rightarrow> AuthorizationCode \<Rightarrow> error + OAuthHTTPServer" where
  "handle_authorization_code srv auth_code =
     (case srv_queue srv of
        None \<Rightarrow> Inl (AttributeError ''put'')
      | Some q \<Rightarrow> Inr (srv\<lparr>srv_queue := Some (q @ [auth_code]), srv_closed := True\<rparr>))"

text \<open>\<^verbatim>\<open>OAuthCallbackHandler.handle_login\<close>: \<^verbatim>\<open>data["code"]\<close> and \<^verbatim>\<open>data["state"]\<close> raise
  \<^verbatim>\<open>KeyError\<close> for a missing key.\<close>

definition handle_login ::
  "OAuthHTTPServer \<Rightarrow> (string \<rightharpoonup> string) \<Rightarrow> error + OAuthHTTPServer" where
  "handle_login srv data' =
     (case data' ''code'' of
        None \<Rightarrow> Inl (KeyError ''code'')
      | Some cd \<Rightarrow>
          (case data' ''state'' of
             None \<Rightarrow> Inl (KeyError ''state'')
           | Some st \<Rightarrow> handle_authorization_code srv \<lparr>code = cd, state = st\<rparr>))"

text \<open>
  \<^verbatim>\<open>OAuthCallbackHandler.do_GET\<close>. \<^verbatim>\<open>dict(pairs)\<close> keeps the last value of a repeated key,
  which is \<open>map_of\<close> on the reversed list. The result is the exception that escapes the
  handler, if any, the server after the request, and the calls made on the connection.
\<close>

definition do_GET ::
  "stdlib \<Rightarrow> OAuthHTTPServer \<Rightarrow> string \<Rightarrow> error option \<times> OAuthHTTPServer \<times> wire list" where
  "do_GET lib srv request_path =
     (let parsed = urlparse lib (Some request_path)
      in if strip ''/'' (url_path parsed) = strip ''/'' (srv_redirect_path srv)
           then
             (let sent = [SendResponse 200, SendHeader ''Content-type'' ''text/html'', EndHeaders]
              in case handle_login srv (map_of (rev (parse_qsl lib (url_query parsed)))) of
                   Inl e \<Rightarrow> (Some e, srv, sent)
                 | Inr srv' \<Rightarrow>
                     (None, srv',
                      sent @
                      (if success_html (srv_remote_metadata srv') = None
                         then [Write (get_default_success_html lib
                                        (endpoint (srv_remote_metadata srv')))]
                       else []) @
                      [Flush]))
         else (None, srv, [SendResponse 404]))"

text \<open>
  The run of the listener process, whose target is \<^verbatim>\<open>server.handle_request(q)\<close>.
  \<open>lst_returned\<close> holds when \<^verbatim>\<open>handle_request\<close> has returned, which ends the process;
  \<open>lst_unserved\<close> are the requests that reached the port and were never handled;
  \<open>lst_error\<close> is the exception of the handler, which the server reports and drops.
\<close>

record listener =
  lst_server :: OAuthHTTPServer
  lst_sent :: "wire list"
  lst_error :: "error option"
  lst_unserved :: "http_request list"
  lst_returned :: bool

text \<open>
  \<^verbatim>\<open>OAuthHTTPServer.handle_request\<close>: attaches the queue and calls
  \<^verbatim>\<open>HTTPServer.handle_request\<close>, which waits for one request, handles it and returns
  (the library documents it as processing a single request). The handler class has only
  \<^verbatim>\<open>do_GET\<close>; the library answers any other method with status 501.
\<close>

definition handle_request ::
  "stdlib \<Rightarrow> OAuthHTTPServer \<Rightarrow> AuthorizationCode list option \<Rightarrow> http_request list \<Rightarrow> listener" where
  "handle_request lib srv queue requests =
     (let srv = srv\<lparr>srv_queue := queue\<rparr>
      in case requests of
           [] \<Rightarrow>
             \<lparr>lst_server = srv, lst_sent = [], lst_error = None, lst_unserved = [],
              lst_returned = False\<rparr>
         | r # rest \<Rightarrow>
             (let (err, srv', sent) =
                    (if command r = ''GET'' then do_GET lib srv (path r)
                     else (None, srv, [SendResponse 501]))
              in \<lparr>lst_server = srv', lst_sent = sent, lst_error = err, lst_unserved = rest,
                  lst_returned = True\<rparr>))"

text \<open>The spec's state \<open>Listening\<close>: the listener process is still inside
  \<^verbatim>\<open>handle_request\<close> and its socket is open.\<close>

definition listening :: "listener \<Rightarrow> bool" where
  "listening l \<longleftrightarrow> \<not> lst_returned l \<and> \<not> srv_closed (lst_server l)"

subsection \<open>The interactive flow\<close>

text \<open>\<^verbatim>\<open>_create_callback_server\<close>: the constructor of \<^verbatim>\<open>HTTPServer\<close> binds the socket.
  What the library parses out of the redirect URI (\<^verbatim>\<open>None\<close> included) and whether the
  address can be bound are left to the parameters.\<close>

definition create_callback_server ::
  "stdlib \<Rightarrow> world \<Rightarrow> AuthorizationClient \<Rightarrow> error + OAuthHTTPServer" where
  "create_callback_server lib w c =
     (let server_url = urlparse lib (self_redirect_uri c)
      in case url_port server_url of
           Inl e \<Rightarrow> Inl e
         | Inr port \<Rightarrow>
             (case server_bind w (url_hostname server_url, port) of
                Some e \<Rightarrow> Inl e
              | None \<Rightarrow>
                  Inr \<lparr>srv_redirect_path = url_path server_url,
                       srv_remote_metadata = self_remote c,
                       srv_queue = None, srv_closed = False\<rparr>))"

text \<open>
  \<^verbatim>\<open>q.get()\<close> returns the first item the listener put on the queue and blocks for ever
  when the listener put none: \<open>None\<close>.
\<close>

definition queue_get :: "listener \<Rightarrow> AuthorizationCode option" where
  "queue_get child =
     (case srv_queue (lst_server child) of
        Some (item # _) \<Rightarrow> Some item
      | _ \<Rightarrow> None)"

text \<open>
  \<^verbatim>\<open>get_creds_from_remote\<close>. The listener process runs beside the caller. When \<^verbatim>\<open>q.get()\<close>
  blocks for ever the call does not return: its result is \<open>None\<close>.
\<close>

definition get_creds_from_remote ::
  "stdlib \<Rightarrow> world \<Rightarrow> AuthorizationClient \<Rightarrow> (error + Credentials) option outcome" where
  "get_creds_from_remote lib w c =
     (case create_callback_server lib w c of
        Inl e \<Rightarrow> \<lparr>result = Some (Inl e), self = c, effects = []\<rparr>
      | Inr server \<Rightarrow>
          (let child = handle_request lib server (Some []) (inbound w);
               browser = OpenBrowser (request_authorization_code lib c)
           in case queue_get child of
                None \<Rightarrow> \<lparr>result = None, self = c, effects = [ProcessStart, browser]\<rparr>
              | Some auth_code \<Rightarrow>
                  (let r = request_access_token w c auth_code
                   in \<lparr>result = Some (result r), self = self r,
                       effects = [ProcessStart, browser] @ effects r @ [ProcessTerminate]\<rparr>)))"

subsection \<open>Method calls on registered instances\<close>

text \<open>
  A method mutates the object it is called on: the object at the reference is replaced by
  the instance after the call. \<open>None\<close> for a reference the process never created.
\<close>

definition call_method ::
  "ref \<Rightarrow> (AuthorizationClient \<Rightarrow> 'r outcome) \<Rightarrow> process \<Rightarrow> ('r \<times> effect list \<times> process) option" where
  "call_method r m p =
     (if r < length (objects p)
        then (let out = m (objects p ! r)
              in Some (result out, effects out, p\<lparr>objects := (objects p)[r := self out]\<rparr>))
      else None)"

subsection \<open>A sample environment\<close>

text \<open>
  Concrete values of the parameters, on which the definitions are evaluated: the values
  of the library functions at the strings of the examples (the digest is a stand-in of
  the right length), a client whose state token is \<^verbatim>\<open>S1\<close> and whose redirect URI is
  \<^verbatim>\<open>http://localhost:53593/callback\<close>, and worlds built from a list of inbound requests
  and one answer of the token endpoint.
\<close>

definition sample_url :: "string \<Rightarrow> string \<Rightarrow> string \<Rightarrow> string \<Rightarrow> string option \<Rightarrow> nat option \<Rightarrow> url" where
  "sample_url s n p q h po =
     \<lparr>url_scheme = s, url_netloc = n, url_path = p, url_params = [], url_query = q,
      url_fragment = [], url_hostname = h, url_port = Inr po\<rparr>"

definition sample_urlparse :: "string option \<Rightarrow> url" where
  "sample_urlparse u =
     (if u = Some ''http://localhost:53593/callback''
        then sample_url ''http'' ''localhost:53593'' ''/callback'' [] (Some ''localhost'') (Some 53593)
      else if u = Some ''https://auth.example.com/authorize''
        then sample_url ''https'' ''auth.example.com'' ''/authorize'' [] (Some ''auth.example.com'') None
      else if u = Some ''/callback?code=XYZ&state=S1''
        then sample_url [] [] ''/callback'' ''code=XYZ&state=S1'' None None
      else if u = Some ''/callback?code=XYZ&state=S2''
        then sample_url [] [] ''/callback'' ''code=XYZ&state=S2'' None None
      else sample_url [] [] (case u of None \<Rightarrow> [] | Some s \<Rightarrow> s) [] None None)"

definition sample_parse_qsl :: "string \<Rightarrow> (string \<times> string) list" where
  "sample_parse_qsl q =
     (if q = ''code=XYZ&state=S1'' then [(''code'', ''XYZ''), (''state'', ''S1'')]
      else if q = ''code=XYZ&state=S2'' then [(''code'', ''XYZ''), (''state'', ''S2'')]
      else [])"

definition sample_urlencode :: "(string \<times> pyval) list \<Rightarrow> string" where
  "sample_urlencode ps =
     join ''&'' (map (\<lambda>(k, v). k @ ''='' @ (case v of PyStr s \<Rightarrow> s | _ \<Rightarrow> ''None'')) ps)"

definition sample_lib :: stdlib where
  "sample_lib =
     \<lparr>sha256 = (\<lambda>s. replicate 32 0),
      urlparse = sample_urlparse,
      urlunparse = (\<lambda>(s, n, p, ps, q, f). s @ ''://'' @ n @ p @ ''?'' @ q),
      urlencode = sample_urlencode,
      parse_qsl = sample_parse_qsl,
      get_default_success_html = (\<lambda>label. ''<html>Success</html>'')\<rparr>"

definition sample_client :: AuthorizationClient where
  "sample_client =
     \<lparr>self_endpoint = ''flyte.example.com'',
      self_auth_endpoint = ''https://auth.example.com/authorize'',
      self_remote = \<lparr>endpoint = Some ''auth.example.com'', success_html = None, failure_html = None\<rparr>,
      self_token_endpoint = ''https://auth.example.com/token'',
      self_client_id = Some ''flytectl'',
      self_scopes = [''all''],
      self_redirect_uri = Some ''http://localhost:53593/callback'',
      self_code_verifier = ''v'',
      self_code_challenge = ''ch'',
      self_state = ''S1'',
      self_verify = PyNone,
      self_headers = [(''content-type'', ''application/x-www-form-urlencoded'')],
      self_params =
        [(''client_id'', PyStr ''flytectl''),
         (''response_type'', PyStr ''code''),
         (''scope'', PyStr ''all''),
         (''redirect_uri'', PyStr ''http://localhost:53593/callback''),
         (''state'', PyStr ''S1''),
         (''code_challenge'', PyStr ''ch''),
         (''code_challenge_method'', PyStr ''S256'')]\<rparr>"

definition sample_response :: "nat \<Rightarrow> (string \<times> pyval) list \<Rightarrow> response" where
  "sample_response status body = \<lparr>status_code = status, content = [], json = Inr (map_of body)\<rparr>"

definition sample_world :: "http_request list \<Rightarrow> response \<Rightarrow> world" where
  "sample_world requests resp =
     \<lparr>server_bind = (\<lambda>address. None), inbound = requests, requests_post = (\<lambda>req. Inr resp)\<rparr>"

definition sample_server :: OAuthHTTPServer where
  "sample_server =
     \<lparr>srv_redirect_path = ''/callback'',
      srv_remote_metadata = \<lparr>endpoint = Some ''auth.example.com'', success_html = None, failure_html = None\<rparr>,
      srv_queue = None, srv_closed = False\<rparr>"

definition GET :: "string \<Rightarrow> http_request" where
  "GET target = \<lparr>command = ''GET'', path = target\<rparr>"

section \<open>Properties\<close>

subsection \<open>PKCE generator\<close>

lemma b64_alphabet_length: "length b64_alphabet = 64"
  by (simp add: b64_alphabet_def)

lemma b64_alphabet_chars:
  "\<forall>c \<in> set b64_alphabet. verifier_char c \<and> state_char c \<and> c \<noteq> CHR ''=''"
  by (simp add: b64_alphabet_def verifier_char_def state_char_def)

lemma b64_char_in: "b64_char n \<in> set b64_alphabet"
  unfolding b64_char_def by (rule nth_mem) (simp add: b64_alphabet_length)

lemma b64_char_verifier [simp]: "verifier_char (b64_char n)"
  using b64_alphabet_chars b64_char_in by blast

lemma pad_not_verifier [simp]: "\<not> verifier_char (CHR ''='')"
  by (simp add: verifier_char_def)

text \<open>Cleaning an encoding removes exactly the padding: \<open>n\<close> bytes leave
  \<open>\<lceil>4n/3\<rceil>\<close> characters.\<close>

lemma length_clean_b64:
  "length (filter verifier_char (urlsafe_b64encode bs)) = (4 * length bs + 2) div 3"
  by (induction bs rule: urlsafe_b64encode.induct) simp_all

text \<open>So the 64 bytes drawn always give 86 characters, and neither \<^verbatim>\<open>raise\<close> is reached.\<close>

lemma generate_code_verifier_returns:
  "generate_code_verifier ent =
     (Inr (filter verifier_char (urlsafe_b64encode (map ent [0..<64]))), \<lambda>i. ent (64 + i))"
  by (simp add: generate_code_verifier_def urandom_def code_verifier_length_def
      length_clean_b64 Let_def)

lemma generate_code_verifier_length:
  "\<exists>v. fst (generate_code_verifier ent) = Inr v \<and> length v = 86"
  by (simp add: generate_code_verifier_returns length_clean_b64)

text \<open>
  Claim C9. \<^verbatim>\<open>_generate_code_verifier\<close> draws 64 bytes, encodes them and deletes the
  characters outside the class. For every entropy it either returns exactly that cleaned
  string, whose length is then between 43 and 128, or raises the \<^verbatim>\<open>ValueError\<close> for a
  string that is too short or too long: the string is never cut or padded to fit.
\<close>

theorem generate_code_verifier_bounds:
  "(let bytes = fst (urandom 64 ent);
        cleaned = filter verifier_char (urlsafe_b64encode bytes);
        r = fst (generate_code_verifier ent)
    in length bytes = 64 \<and>
       ((r = Inr cleaned \<and> 43 \<le> length cleaned \<and> length cleaned \<le> 128) \<or>
        (r = Inl (ValueError ''Verifier too short. number of bytes must be > 30.'') \<and>
           length cleaned < 43) \<or>
        (r = Inl (ValueError ''Verifier too long. number of bytes must be < 97.'') \<and>
           128 < length cleaned)))"
  by (simp add: generate_code_verifier_def urandom_def code_verifier_length_def Let_def)

subsection \<open>Token responses\<close>

text \<open>The part of the parse that works: a body with \<^verbatim>\<open>access_token\<close> and \<^verbatim>\<open>expires_in\<close>.\<close>

lemma credentials_with_expiry:
  "json resp = Inr body \<Longrightarrow> body ''access_token'' = Some a \<Longrightarrow> body ''expires_in'' = Some e \<Longrightarrow>
   credentials_from_response c resp =
     Inr \<lparr>access_token = a,
          refresh_token = (case body ''refresh_token'' of None \<Rightarrow> PyNone | Some v \<Rightarrow> v),
          for_endpoint = self_endpoint c, expires_in = e\<rparr>"
  by (simp add: credentials_from_response_def)

text \<open>
  Claim C1. The claim's example, a status 200 response whose body is
  \<^verbatim>\<open>{"access_token": "tok"}\<close>, should yield credentials with that access token and no
  refresh token. The code raises \<^verbatim>\<open>UnboundLocalError\<close> instead, for every client: the
  local \<^verbatim>\<open>expires_in\<close> is read without having been assigned.
\<close>

theorem credentials_access_token_only:
  "credentials_from_response c (sample_response 200 [(''access_token'', PyStr ''tok'')]) =
     Inl (UnboundLocalError ''expires_in'')"
  by (simp add: credentials_from_response_def sample_response_def)

text \<open>
  Claim C5. A response whose JSON body has no \<^verbatim>\<open>access_token\<close> makes the parse raise
  the \<^verbatim>\<open>ValueError\<close> that asks for it. So when the token endpoint answers status 200
  with such a body, both exchanges, the one for an authorization code whose state matches
  and the one for a refresh token, end in this error: no credentials are returned.
\<close>

theorem missing_access_token:
  assumes "json resp = Inr body" and "body ''access_token'' = None"
    and "status_code resp = 200" and "requests_post w = (\<lambda>req. Inr resp)"
  shows "credentials_from_response c resp =
           Inl (ValueError ''Expected \"access_token\" in response from oauth server'') \<and>
         (state auth_code = self_state c \<longrightarrow>
            result (request_access_token w c auth_code) =
              Inl (ValueError ''Expected \"access_token\" in response from oauth server'')) \<and>
         (refresh_token credentials \<noteq> PyNone \<longrightarrow>
            result (refresh_access_token w c credentials) =
              Inl (ValueError ''Expected \"access_token\" in response from oauth server''))"
  using assms
  by (simp add: credentials_from_response_def request_access_token_def
      refresh_access_token_def Let_def)

theorem missing_access_token_witness:
  "result (request_access_token
     (sample_world [] (sample_response 200 [(''refresh_token'', PyStr ''r''), (''expires_in'', PyInt 3600)]))
     sample_client \<lparr>code = ''XYZ'', state = ''S1''\<rparr>) =
   Inl (ValueError ''Expected \"access_token\" in response from oauth server'')"
proof -
  let ?resp = "sample_response 200 [(''refresh_token'', PyStr ''r''), (''expires_in'', PyInt 3600)]"
  have h1: "json ?resp = Inr (map_of [(''refresh_token'', PyStr ''r''), (''expires_in'', PyInt 3600)])"
    by (simp add: sample_response_def)
  have h2: "map_of [(''refresh_token'', PyStr ''r''), (''expires_in'', PyInt 3600)] ''access_token'' = None"
    by simp
  have h3: "status_code ?resp = 200"
    by (simp add: sample_response_def)
  have h4: "requests_post (sample_world [] ?resp) = (\<lambda>req. Inr ?resp)"
    by (simp add: sample_world_def)
  have h5: "state \<lparr>code = ''XYZ'', state = ''S1''\<rparr> = self_state sample_client"
    by (simp add: sample_client_def)
  from missing_access_token [OF h1 h2 h3 h4] h5 show ?thesis
    by blast
qed

text \<open>
  Claim C6. With credentials whose refresh token is \<^verbatim>\<open>None\<close>, \<^verbatim>\<open>refresh_access_token\<close>
  raises the \<^verbatim>\<open>ValueError\<close>, leaves the client as it was and has no effect outside the
  process. A POST is among its effects exactly when a refresh token is present.
\<close>

theorem refresh_without_token:
  "(refresh_token credentials = PyNone \<longrightarrow>
      refresh_access_token w c credentials =
        \<lparr>result = Inl (ValueError
            ''no refresh token available with which to refresh authorization credentials''),
         self = c, effects = []\<rparr>) \<and>
   (list_ex is_post (effects (refresh_access_token w c credentials)) \<longleftrightarrow>
      refresh_token credentials \<noteq> PyNone)"
  by (simp add: refresh_access_token_def Let_def split: sum.splits)

theorem refresh_without_token_witness:
  "refresh_access_token (sample_world [] (sample_response 200 []))
     sample_client
     \<lparr>access_token = PyStr ''tok'', refresh_token = PyNone,
      for_endpoint = ''flyte.example.com'', expires_in = PyNone\<rparr> =
   \<lparr>result = Inl (ValueError
       ''no refresh token available with which to refresh authorization credentials''),
    self = sample_client, effects = []\<rparr>"
proof -
  have h: "refresh_token \<lparr>access_token = PyStr ''tok'', refresh_token = PyNone,
      for_endpoint = ''flyte.example.com'', expires_in = PyNone\<rparr> = PyNone"
    by simp
  from refresh_without_token show ?thesis
    using h by (rule conjunct1 [THEN mp])
qed

subsection \<open>The per-endpoint registry\<close>

lemma init_total:
  "\<exists>c ent'. init lib a ent = (Inr c, ent') \<and> self_endpoint c = arg_endpoint a \<and>
       self_auth_endpoint c = arg_auth_endpoint a"
  by (simp add: init_def generate_code_verifier_returns Let_def split: prod.splits)

lemma construct_positional:
  "\<exists>c ent'. construct lib [PyStr e, PyStr a, PyStr t] [] ent = (Inr c, ent') \<and>
       self_endpoint c = e \<and> self_auth_endpoint c = a"
proof -
  let ?a = "\<lparr>arg_endpoint = e, arg_auth_endpoint = a, arg_token_endpoint = t,
             arg_scopes = None, arg_client_id = None, arg_redirect_uri = None,
             arg_endpoint_metadata = None, arg_verify = PyNone\<rparr>"
  have b: "bind_arguments [PyStr e, PyStr a, PyStr t] [] =
             Inr (map_of (zip init_parameters [PyStr e, PyStr a, PyStr t]))"
    by (simp add: bind_arguments_def init_parameters_def)
  have t: "typed_arguments (map_of (zip init_parameters [PyStr e, PyStr a, PyStr t])) = Inr ?a"
    by (simp add: typed_arguments_def init_parameters_def)
  show ?thesis
    using init_total [of lib ?a ent] by (simp add: construct_def b t)
qed

text \<open>A call whose key is registered returns the registered instance and changes nothing:
  no new verifier or state token is drawn.\<close>

lemma call_existing:
  "dict_key a = Some k \<Longrightarrow> instances p k = Some r \<Longrightarrow>
   SingletonPerEndpoint_call lib (a # rest) kwargs p = (Inr r, p)"
  by (simp add: SingletonPerEndpoint_call_def)

lemma call_new:
  "dict_key a = Some k \<Longrightarrow> instances p k = None \<Longrightarrow>
   construct lib (a # rest) kwargs (entropy p) = (Inr c, ent') \<Longrightarrow>
   SingletonPerEndpoint_call lib (a # rest) kwargs p =
     (Inr (length (objects p)),
      p\<lparr>instances := (instances p)(k \<mapsto> length (objects p)),
        objects := objects p @ [c], entropy := ent'\<rparr>)"
  by (simp add: SingletonPerEndpoint_call_def)

text \<open>With keyword arguments only, the key is the value of \<^verbatim>\<open>auth_endpoint\<close>.\<close>

lemma call_keywords_existing:
  "map_of kwargs ''auth_endpoint'' = Some a \<Longrightarrow> dict_key a = Some k \<Longrightarrow>
   instances p k = Some r \<Longrightarrow>
   SingletonPerEndpoint_call lib [] kwargs p = (Inr r, p)"
  by (simp add: SingletonPerEndpoint_call_def)

text \<open>
  Claim C2. Two constructions should return the identical instance exactly when their
  \<^verbatim>\<open>auth_endpoint\<close> values are equal. With positional arguments the registry key is
  \<^verbatim>\<open>args[0]\<close>, which is the parameter \<^verbatim>\<open>endpoint\<close>: in a fresh process,
  \<^verbatim>\<open>AuthorizationClient("e", "a1", "t")\<close> and then \<^verbatim>\<open>AuthorizationClient("e", "a2", "t")\<close>
  return the identical instance (reference 0, whose \<^verbatim>\<open>auth_endpoint\<close> stays \<^verbatim>\<open>a1\<close>),
  and \<^verbatim>\<open>AuthorizationClient("f", "a1", "t")\<close> returns another instance (reference 1) for
  the \<^verbatim>\<open>auth_endpoint\<close> of the first.
\<close>

theorem positional_calls_key_on_endpoint:
  "(let (r1, p1) = SingletonPerEndpoint_call lib [PyStr ''e'', PyStr ''a1'', PyStr ''t''] [] (start ent);
        (r2, p2) = SingletonPerEndpoint_call lib [PyStr ''e'', PyStr ''a2'', PyStr ''t''] [] p1;
        (r3, p3) = SingletonPerEndpoint_call lib [PyStr ''f'', PyStr ''a1'', PyStr ''t''] [] p2
    in r1 = Inr 0 \<and> r2 = Inr 0 \<and> r3 = Inr 1 \<and>
       map self_auth_endpoint (objects p3) = [''a1'', ''a1''])"
proof -
  obtain c1 e1 where c1:
    "construct lib [PyStr ''e'', PyStr ''a1'', PyStr ''t''] [] (entropy (start ent)) = (Inr c1, e1)"
    "self_auth_endpoint c1 = ''a1''"
    using construct_positional by blast
  define p1 where
    "p1 = (start ent)\<lparr>instances := (instances (start ent))(PyStr ''e'' \<mapsto> 0),
                      objects := [c1], entropy := e1\<rparr>"
  have s1: "SingletonPerEndpoint_call lib [PyStr ''e'', PyStr ''a1'', PyStr ''t''] [] (start ent) =
              (Inr 0, p1)"
    using call_new [of "PyStr ''e''" "PyStr ''e''" "start ent", OF _ _ c1(1)]
    by (simp add: p1_def start_def)
  have s2: "SingletonPerEndpoint_call lib [PyStr ''e'', PyStr ''a2'', PyStr ''t''] [] p1 =
              (Inr 0, p1)"
    by (rule call_existing [where k = "PyStr ''e''"]) (simp_all add: p1_def)
  obtain c3 e3 where c3:
    "construct lib [PyStr ''f'', PyStr ''a1'', PyStr ''t''] [] (entropy p1) = (Inr c3, e3)"
    "self_auth_endpoint c3 = ''a1''"
    using construct_positional by blast
  have s3: "SingletonPerEndpoint_call lib [PyStr ''f'', PyStr ''a1'', PyStr ''t''] [] p1 =
              (Inr 1, p1\<lparr>instances := (instances p1)(PyStr ''f'' \<mapsto> 1),
                         objects := [c1, c3], entropy := e3\<rparr>)"
    using call_new [of "PyStr ''f''" "PyStr ''f''" p1, OF _ _ c3(1)]
    by (simp add: p1_def start_def)
  show ?thesis
    by (simp add: s1 s2 s3 c1(2) c3(2))
qed

subsection \<open>The callback listener\<close>

text \<open>A GET request on the redirect path whose query has \<^verbatim>\<open>code\<close> and \<^verbatim>\<open>state\<close> is
  delivered: it is the item that \<^verbatim>\<open>q.get()\<close> returns.\<close>

lemma callback_delivered:
  assumes "command r = ''GET''"
    and "strip ''/'' (url_path (urlparse lib (Some (path r)))) = strip ''/'' (srv_redirect_path server)"
    and "map_of (rev (parse_qsl lib (url_query (urlparse lib (Some (path r)))))) ''code'' = Some cd"
    and "map_of (rev (parse_qsl lib (url_query (urlparse lib (Some (path r)))))) ''state'' = Some st"
  shows "queue_get (handle_request lib server (Some []) (r # rest)) = Some \<lparr>code = cd, state = st\<rparr>"
  using assms
  by (simp add: handle_request_def do_GET_def handle_login_def handle_authorization_code_def
      queue_get_def Let_def)

text \<open>On the other path the handler only fills the header buffer: \<^verbatim>\<open>end_headers\<close> is not
  called, so nothing reaches the client.\<close>

lemma unmatched_path_nothing_transmitted:
  assumes "strip ''/'' (url_path (urlparse lib (Some p))) \<noteq> strip ''/'' (srv_redirect_path srv)"
  shows "do_GET lib srv p = (None, srv, [SendResponse 404])"
    and "transmitted [] (snd (snd (do_GET lib srv p))) = []"
  using assms by (simp_all add: do_GET_def Let_def)

lemma sample_server_created:
  "create_callback_server sample_lib (sample_world requests resp) sample_client = Inr sample_server"
  by (simp add: create_callback_server_def sample_lib_def sample_urlparse_def sample_url_def
      sample_world_def sample_client_def sample_server_def)

lemma sample_callback_delivered:
  "queue_get (handle_request sample_lib sample_server (Some [])
     (GET ''/callback?code=XYZ&state=S1'' # rest)) = Some \<lparr>code = ''XYZ'', state = ''S1''\<rparr>"
  "queue_get (handle_request sample_lib sample_server (Some [])
     (GET ''/callback?code=XYZ&state=S2'' # rest)) = Some \<lparr>code = ''XYZ'', state = ''S2''\<rparr>"
  by (rule callback_delivered;
      simp add: GET_def sample_lib_def sample_urlparse_def sample_url_def sample_parse_qsl_def
        sample_server_def)+

text \<open>
  Claim C7 as the code has it. For a request whose path is not the redirect path, the
  listener puts nothing on the queue and leaves its socket as it was; but
  \<^verbatim>\<open>handle_request\<close> has then returned, which ends the listener process: the listener is
  not listening any more and every later request of the attempt stays unserved, so a flow
  whose first inbound request is this one never gets its authorization code.
\<close>

theorem unmatched_path_ends_listener:
  assumes "strip ''/'' (url_path (urlparse lib (Some (path r)))) \<noteq> strip ''/'' (srv_redirect_path srv)"
  shows "(let l = handle_request lib srv (Some q) (r # rest)
          in srv_queue (lst_server l) = Some q \<and>
             srv_closed (lst_server l) = srv_closed srv \<and>
             lst_error l = None \<and>
             lst_returned l \<and> \<not> listening l \<and> lst_unserved l = rest) \<and>
         (\<forall>w c. create_callback_server lib w c = Inr srv \<and> inbound w = r # rest \<longrightarrow>
                result (get_creds_from_remote lib w c) = None)"
  using assms
  by (simp add: handle_request_def do_GET_def listening_def get_creds_from_remote_def
      queue_get_def Let_def)

theorem unmatched_path_ends_listener_witness:
  "(let l = handle_request sample_lib sample_server (Some [])
              [GET ''/favicon.ico'', GET ''/callback?code=XYZ&state=S1'']
    in srv_queue (lst_server l) = Some [] \<and> \<not> srv_closed (lst_server l) \<and>
       lst_returned l \<and> \<not> listening l \<and>
       lst_unserved l = [GET ''/callback?code=XYZ&state=S1''])"
proof -
  have h: "strip ''/'' (url_path (urlparse sample_lib (Some (path (GET ''/favicon.ico''))))) \<noteq>
           strip ''/'' (srv_redirect_path sample_server)"
    by (simp add: GET_def sample_lib_def sample_urlparse_def sample_url_def sample_server_def
        strip_def)
  have c: "srv_closed sample_server = False"
    by (simp add: sample_server_def)
  from unmatched_path_ends_listener [OF h, of "[]" "[GET ''/callback?code=XYZ&state=S1'']"]
  show ?thesis
    by (simp add: Let_def c)
qed

text \<open>
  Claim C7 as stated fails. The listener of the sample client receives a request for
  \<^verbatim>\<open>/favicon.ico\<close> and then the callback with the right state. After the first request
  the listener is not listening, the callback stays unserved, nothing is on the queue, and
  \<^verbatim>\<open>get_creds_from_remote\<close> never returns.
\<close>

theorem unmatched_path_counterexample:
  "(let requests = [GET ''/favicon.ico'', GET ''/callback?code=XYZ&state=S1''];
        l = handle_request sample_lib sample_server (Some []) requests
    in lst_sent l = [SendResponse 404] \<and> \<not> listening l \<and>
       lst_unserved l = [GET ''/callback?code=XYZ&state=S1''] \<and>
       queue_get l = None \<and>
       result (get_creds_from_remote sample_lib
         (sample_world requests
            (sample_response 200 [(''access_token'', PyStr ''tok''), (''expires_in'', PyInt 3600)]))
         sample_client) = None)"
  by (simp add: sample_world_def GET_def handle_request_def do_GET_def handle_login_def
        handle_authorization_code_def queue_get_def sample_lib_def sample_urlparse_def
        sample_url_def sample_parse_qsl_def sample_server_def strip_def Let_def listening_def
        get_creds_from_remote_def create_callback_server_def sample_client_def)

text \<open>
  Claim C8. In one attempt the queue starts empty and the listener handles the first
  request only. Whatever the requests are, at most one item is on the queue afterwards;
  if there is one, the socket has been closed and the listener is not listening; and
  every request after the first is left unserved, a second callback included.
\<close>

theorem listener_single_callback:
  "(let l = handle_request lib srv (Some []) requests
    in (\<exists>q. srv_queue (lst_server l) = Some q \<and> length q \<le> 1 \<and>
             (q \<noteq> [] \<longrightarrow> srv_closed (lst_server l) \<and> \<not> listening l)) \<and>
       lst_unserved l = tl requests)"
  by (cases requests)
     (auto simp add: handle_request_def do_GET_def handle_login_def handle_authorization_code_def
        listening_def Let_def split: option.splits)

theorem listener_single_callback_witness:
  "(let l = handle_request sample_lib sample_server (Some [])
              [GET ''/callback?code=XYZ&state=S1'', GET ''/callback?code=XYZ&state=S2'']
    in srv_queue (lst_server l) = Some [\<lparr>code = ''XYZ'', state = ''S1''\<rparr>] \<and>
       srv_closed (lst_server l) \<and> \<not> listening l \<and>
       lst_unserved l = [GET ''/callback?code=XYZ&state=S2''])"
proof -
  let ?l = "handle_request sample_lib sample_server (Some [])
              [GET ''/callback?code=XYZ&state=S1'', GET ''/callback?code=XYZ&state=S2'']"
  have q: "srv_queue (lst_server ?l) = Some [\<lparr>code = ''XYZ'', state = ''S1''\<rparr>]"
    by (simp add: GET_def handle_request_def do_GET_def handle_login_def
        handle_authorization_code_def sample_lib_def sample_urlparse_def sample_url_def
        sample_parse_qsl_def sample_server_def strip_def Let_def)
  from listener_single_callback [of sample_lib sample_server
      "[GET ''/callback?code=XYZ&state=S1'', GET ''/callback?code=XYZ&state=S2'']"]
  show ?thesis
    by (simp add: Let_def q)
qed

subsection \<open>The state check of the flow\<close>

text \<open>
  Claim C3. When the listener delivers an authorization code whose state differs from the
  state token of the client, \<^verbatim>\<open>get_creds_from_remote\<close> raises the \<^verbatim>\<open>ValueError\<close> of the state
  check, the client is unchanged, and no POST is among the effects: the call opened the
  browser and ended the listener, nothing else.
\<close>

theorem state_mismatch_stops_flow:
  assumes "create_callback_server lib w c = Inr server"
    and "queue_get (handle_request lib server (Some []) (inbound w)) = Some auth_code"
    and "state auth_code \<noteq> self_state c"
  shows "get_creds_from_remote lib w c =
           \<lparr>result = Some (Inl (ValueError
               (''Unexpected state parameter ['' @ state auth_code @ ''] passed''))),
            self = c,
            effects = [ProcessStart, OpenBrowser (request_authorization_code lib c),
                       ProcessTerminate]\<rparr> \<and>
         \<not> list_ex is_post (effects (get_creds_from_remote lib w c)) \<and>
         effects (request_access_token w c auth_code) = []"
  using assms
  by (auto simp add: get_creds_from_remote_def request_access_token_def Let_def)

theorem state_mismatch_stops_flow_witness:
  "result (get_creds_from_remote sample_lib
      (sample_world [GET ''/callback?code=XYZ&state=S2'']
         (sample_response 200 [(''access_token'', PyStr ''tok''), (''expires_in'', PyInt 3600)]))
      sample_client) =
     Some (Inl (ValueError ''Unexpected state parameter [S2] passed'')) \<and>
   \<not> list_ex is_post (effects (get_creds_from_remote sample_lib
      (sample_world [GET ''/callback?code=XYZ&state=S2'']
         (sample_response 200 [(''access_token'', PyStr ''tok''), (''expires_in'', PyInt 3600)]))
      sample_client))"
proof -
  let ?w = "sample_world [GET ''/callback?code=XYZ&state=S2'']
         (sample_response 200 [(''access_token'', PyStr ''tok''), (''expires_in'', PyInt 3600)])"
  have h1: "create_callback_server sample_lib ?w sample_client = Inr sample_server"
    by (rule sample_server_created)
  have h2: "queue_get (handle_request sample_lib sample_server (Some []) (inbound ?w)) =
              Some \<lparr>code = ''XYZ'', state = ''S2''\<rparr>"
    by (simp add: sample_world_def sample_callback_delivered)
  have h3: "state \<lparr>code = ''XYZ'', state = ''S2''\<rparr> \<noteq> self_state sample_client"
    by (simp add: sample_client_def)
  from state_mismatch_stops_flow [OF h1 h2 h3] show ?thesis
    by simp
qed

text \<open>
  Claim C4. When the delivered authorization code carries the state token of the client,
  \<^verbatim>\<open>get_creds_from_remote\<close> goes on to the exchange: after the browser it issues one POST,
  to the token endpoint, whose form has \<^verbatim>\<open>grant_type=authorization_code\<close>, the code of the
  callback and the code verifier of the client.
\<close>

theorem matching_state_posts_code:
  assumes "create_callback_server lib w c = Inr server"
    and "queue_get (handle_request lib server (Some []) (inbound w)) = Some auth_code"
    and "state auth_code = self_state c"
  shows "\<exists>req. effects (get_creds_from_remote lib w c) =
                 [ProcessStart, OpenBrowser (request_authorization_code lib c),
                  HttpPost req, ProcessTerminate] \<and>
               url req = self_token_endpoint c \<and>
               headers req = self_headers c \<and>
               map_of (data req) ''grant_type'' = Some (PyStr ''authorization_code'') \<and>
               map_of (data req) ''code'' = Some (PyStr (code auth_code)) \<and>
               map_of (data req) ''code_verifier'' = Some (PyStr (self_code_verifier c))"
  using assms
  by (auto simp add: get_creds_from_remote_def request_access_token_def Let_def
      update_conv' split: sum.splits)

theorem matching_state_posts_code_witness:
  "(\<exists>req. effects (get_creds_from_remote sample_lib
             (sample_world [GET ''/callback?code=XYZ&state=S1'']
                (sample_response 200 [(''access_token'', PyStr ''tok''), (''expires_in'', PyInt 3600)]))
             sample_client) =
           [ProcessStart, OpenBrowser (request_authorization_code sample_lib sample_client),
            HttpPost req, ProcessTerminate] \<and>
         url req = ''https://auth.example.com/token'' \<and>
         map_of (data req) ''code'' = Some (PyStr ''XYZ'') \<and>
         map_of (data req) ''code_verifier'' = Some (PyStr ''v''))"
proof -
  let ?w = "sample_world [GET ''/callback?code=XYZ&state=S1'']
         (sample_response 200 [(''access_token'', PyStr ''tok''), (''expires_in'', PyInt 3600)])"
  have h1: "create_callback_server sample_lib ?w sample_client = Inr sample_server"
    by (rule sample_server_created)
  have h2: "queue_get (handle_request sample_lib sample_server (Some []) (inbound ?w)) =
              Some \<lparr>code = ''XYZ'', state = ''S1''\<rparr>"
    by (simp add: sample_world_def sample_callback_delivered)
  have h3: "state \<lparr>code = ''XYZ'', state = ''S1''\<rparr> = self_state sample_client"
    by (simp add: sample_client_def)
  have v: "self_token_endpoint sample_client = ''https://auth.example.com/token''"
    "self_code_verifier sample_client = ''v''"
    by (simp_all add: sample_client_def)
  from matching_state_posts_code [OF h1 h2 h3] show ?thesis
    by (auto simp add: v)
qed

subsection \<open>The frame of the token exchange\<close>

lemma self_request_access_token:
  "state auth_code = self_state c \<Longrightarrow>
   self (request_access_token w c auth_code) =
     c\<lparr>self_params :=
         AList.update ''grant_type'' (PyStr ''authorization_code'')
           (AList.update ''code_verifier'' (PyStr (self_code_verifier c))
             (AList.update ''code'' (PyStr (code auth_code)) (self_params c)))\<rparr>"
  by (simp add: request_access_token_def Let_def split: sum.splits)

text \<open>A call that fails the state check raises before the update and leaves the
  instance as it was.\<close>

lemma self_request_access_token_mismatch:
  "state auth_code \<noteq> self_state c \<Longrightarrow> self (request_access_token w c auth_code) = c"
  by (auto simp add: request_access_token_def)

text \<open>A freshly constructed client has the seven parameters of the authorization
  request and none of the token-grant fields.\<close>

lemma init_params_keys:
  "init lib a ent = (Inr c, ent') \<Longrightarrow>
   map fst (self_params c) =
     [''client_id'', ''response_type'', ''scope'', ''redirect_uri'', ''state'',
      ''code_challenge'', ''code_challenge_method'']"
  by (auto simp add: init_def Let_def split: prod.splits sum.splits)

text \<open>
  Claim C10. A call of \<^verbatim>\<open>_request_access_token\<close> that passes the state check leaves the
  instance with \<^verbatim>\<open>code\<close>, \<^verbatim>\<open>code_verifier\<close> and \<^verbatim>\<open>grant_type\<close> in \<^verbatim>\<open>_params\<close>, whatever the
  token endpoint answers. The change stays on the registered object: called on the
  object at a reference, the method leaves the changed instance at that reference and the
  registry as it was. The authorization URL built from the instance afterwards encodes the
  changed parameters, and parameters that had no \<^verbatim>\<open>grant_type\<close> before are not the same
  after.
\<close>

theorem request_access_token_mutates_params:
  assumes "state auth_code = self_state c"
  shows "(let c' = self (request_access_token w c auth_code);
              parsed = urlparse lib (Some (self_auth_endpoint c))
          in map_of (self_params c') ''code'' = Some (PyStr (code auth_code)) \<and>
             map_of (self_params c') ''code_verifier'' = Some (PyStr (self_code_verifier c)) \<and>
             map_of (self_params c') ''grant_type'' = Some (PyStr ''authorization_code'') \<and>
             (\<forall>p r. r < length (objects p) \<and> objects p ! r = c \<longrightarrow>
                (\<exists>res eff p'.
                   call_method r (\<lambda>x. request_access_token w x auth_code) p = Some (res, eff, p') \<and>
                   objects p' ! r = c' \<and> instances p' = instances p)) \<and>
             request_authorization_code lib c' =
               urlunparse lib (url_scheme parsed, url_netloc parsed, url_path parsed, None,
                               urlencode lib (self_params c'), None) \<and>
             (map_of (self_params c) ''grant_type'' = None \<longrightarrow> self_params c' \<noteq> self_params c))"
proof -
  let ?c' = "self (request_access_token w c auth_code)"
  have p: "map_of (self_params ?c') =
             (map_of (self_params c))
               (''code'' \<mapsto> PyStr (code auth_code),
                ''code_verifier'' \<mapsto> PyStr (self_code_verifier c),
                ''grant_type'' \<mapsto> PyStr ''authorization_code'')"
    by (simp add: self_request_access_token [OF assms] update_conv')
  have e: "self_auth_endpoint ?c' = self_auth_endpoint c"
    by (simp add: self_request_access_token [OF assms])
  have g: "map_of (self_params ?c') ''grant_type'' = Some (PyStr ''authorization_code'')"
    by (simp add: p)
  have n: "self_params ?c' \<noteq> self_params c" if "map_of (self_params c) ''grant_type'' = None"
    using g that by auto
  have m: "\<exists>res eff p'.
             call_method r (\<lambda>x. request_access_token w x auth_code) p = Some (res, eff, p') \<and>
             objects p' ! r = ?c' \<and> instances p' = instances p"
    if "r < length (objects p) \<and> objects p ! r = c" for p r
    using that by (simp add: call_method_def Let_def)
  show ?thesis
    using n m by (simp add: Let_def p e request_authorization_code_def)
qed

theorem request_access_token_mutates_params_witness:
  "(let c' = self (request_access_token
                     (sample_world [] (sample_response 404 []))
                     sample_client \<lparr>code = ''XYZ'', state = ''S1''\<rparr>)
    in self_params c' =
         self_params sample_client @
           [(''code'', PyStr ''XYZ''), (''code_verifier'', PyStr ''v''),
            (''grant_type'', PyStr ''authorization_code'')] \<and>
       map_of (self_params c') ''code'' = Some (PyStr ''XYZ'') \<and>
       request_authorization_code sample_lib c' =
         ''https://auth.example.com/authorize?client_id=flytectl&response_type=code&scope=all&redirect_uri=http://localhost:53593/callback&state=S1&code_challenge=ch&code_challenge_method=S256&code=XYZ&code_verifier=v&grant_type=authorization_code'')"
proof -
  let ?w = "sample_world [] (sample_response 404 [])"
  let ?c' = "self (request_access_token ?w sample_client \<lparr>code = ''XYZ'', state = ''S1''\<rparr>)"
  have h: "state \<lparr>code = ''XYZ'', state = ''S1''\<rparr> = self_state sample_client"
    by (simp add: sample_client_def)
  note t = request_access_token_mutates_params [OF h, of ?w sample_lib, unfolded Let_def]
  have t1: "map_of (self_params ?c') ''code'' = Some (PyStr ''XYZ'')"
    using t by simp
  have s: "self_params ?c' =
         self_params sample_client @
           [(''code'', PyStr ''XYZ''), (''code_verifier'', PyStr ''v''),
            (''grant_type'', PyStr ''authorization_code'')]"
    by (simp add: request_access_token_def sample_world_def sample_response_def
        sample_client_def Let_def)
  have u0: "request_authorization_code sample_lib ?c' =
         (let parsed = urlparse sample_lib (Some (self_auth_endpoint sample_client))
          in urlunparse sample_lib
               (url_scheme parsed, url_netloc parsed, url_path parsed, None,
                urlencode sample_lib (self_params ?c'), None))"
    using t unfolding Let_def by blast
  have u: "request_authorization_code sample_lib ?c' =
         ''https://auth.example.com/authorize?client_id=flytectl&response_type=code&scope=all&redirect_uri=http://localhost:53593/callback&state=S1&code_challenge=ch&code_challenge_method=S256&code=XYZ&code_verifier=v&grant_type=authorization_code''"
    unfolding u0 s
    by (simp add: sample_lib_def sample_urlparse_def sample_url_def sample_urlencode_def
        sample_client_def)
  show ?thesis
    unfolding Let_def using s t1 u by blast
qed

end
